theory Spec2Isabelle
  imports Complex_Main "HOL-Library.Sublist" "HOL-Library.FSet" "HOL-Library.Product_Lexorder"
begin

section \<open>Python values and library routines used by the bot\<close>

text \<open>
  An exception caught by \<^verbatim>\<open>except Exception as e\<close> is kept as its message, the text
  that \<^verbatim>\<open>str(e)\<close> gives.
\<close>

datatype exn = Exception string

fun str_exn :: "exn \<Rightarrow> string" where
  "str_exn (Exception m) = m"

text \<open>
  An observation value is a float: \<open>NaN\<close> is the absent value of the provider, \<open>Num r\<close> a
  finite float, given by its exact value. Infinities and the negative zero do not occur.
\<close>

datatype pyfloat = NaN | Num rat

fun notna :: "pyfloat \<Rightarrow> bool" where
  "notna NaN = False"
| "notna (Num r) = True"

subsection \<open>Decimal text\<close>

definition digit_char :: "nat \<Rightarrow> char" where
  "digit_char n = char_of (48 + n mod 10)"

fun show_nat :: "nat \<Rightarrow> string" where
  "show_nat n = (if n < 10 then [digit_char n] else show_nat (n div 10) @ [digit_char n])"

declare show_nat.simps [simp del]


text \<open>\<^verbatim>\<open>%02d\<close>: at least two digits.\<close>

definition pad2 :: "nat \<Rightarrow> string" where
  "pad2 n = (if n < 10 then CHR ''0'' # show_nat n else show_nat n)"

text \<open>
  The format specifications \<^verbatim>\<open>.2f\<close>, \<^verbatim>\<open>,.2f\<close> and \<^verbatim>\<open>,.0f\<close> of a finite float: the
  exact value is rounded to the wanted number of decimals, a tie going to the even
  neighbour, and the comma groups the integer digits in threes.
\<close>

definition round_half_even :: "rat \<Rightarrow> nat" where
  "round_half_even q =
     (let f = \<lfloor>q\<rfloor>; r = q - of_int f
      in nat (if r < 1 / 2 then f else if 1 / 2 < r then f + 1
              else if even f then f else f + 1))"

fun commas_rev :: "string \<Rightarrow> string" where
  "commas_rev (a # b # c # d # rest) = a # b # c # CHR '','' # commas_rev (d # rest)"
| "commas_rev ds = ds"

definition group_thousands :: "string \<Rightarrow> string" where
  "group_thousands ds = rev (commas_rev (rev ds))"

definition sign_text :: "rat \<Rightarrow> string" where
  "sign_text r = (if r < 0 then ''-'' else '''')"

definition fmt_2f :: "rat \<Rightarrow> string" where
  "fmt_2f r =
     (let n = round_half_even (\<bar>r\<bar> * 100)
      in sign_text r @ show_nat (n div 100) @ ''.'' @ pad2 (n mod 100))"

definition fmt_comma_2f :: "rat \<Rightarrow> string" where
  "fmt_comma_2f r =
     (let n = round_half_even (\<bar>r\<bar> * 100)
      in sign_text r @ group_thousands (show_nat (n div 100)) @ ''.'' @ pad2 (n mod 100))"

definition fmt_comma_0f :: "rat \<Rightarrow> string" where
  "fmt_comma_0f r = sign_text r @ group_thousands (show_nat (round_half_even \<bar>r\<bar>))"

subsection \<open>Strings\<close>

text \<open>\<^verbatim>\<open>sub in s\<close> on strings.\<close>

fun str_in :: "string \<Rightarrow> string \<Rightarrow> bool" where
  "str_in sub [] = (sub = [])"
| "str_in sub (c # cs) = (prefix sub (c # cs) \<or> str_in sub cs)"





subsection \<open>Dates and times\<close>

text \<open>
  A \<^verbatim>\<open>datetime\<close> is the proleptic Gregorian ordinal of its date (\<^verbatim>\<open>toordinal()\<close>: day 1
  is 0001-01-01) and its time of day. \<^verbatim>\<open>+ timedelta(days=n)\<close> moves the ordinal and keeps
  the time of day; \<^verbatim>\<open>.date()\<close> is the ordinal.
\<close>

record datetime =
  ordinal :: int
  hour :: nat
  minute :: nat
  second :: nat
  microsecond :: nat

definition add_days :: "datetime \<Rightarrow> int \<Rightarrow> datetime" where
  "add_days dt n = dt\<lparr>ordinal := ordinal dt + n\<rparr>"

text \<open>\<^verbatim>\<open>weekday()\<close>: Monday is 0, Saturday 5, Sunday 6.\<close>

definition weekday :: "datetime \<Rightarrow> int" where
  "weekday dt = (ordinal dt + 6) mod 7"

text \<open>The microseconds from the start of day 0 to a moment, and \<^verbatim>\<open>timedelta(minutes=n)\<close>.\<close>

definition to_microseconds :: "datetime \<Rightarrow> int" where
  "to_microseconds dt =
     (((ordinal dt * 24 + int (hour dt)) * 60 + int (minute dt)) * 60 + int (second dt)) * 1000000
       + int (microsecond dt)"

definition timedelta_minutes :: "int \<Rightarrow> int" where
  "timedelta_minutes n = n * 60 * 1000000"

text \<open>
  The text of \<^verbatim>\<open>isoformat()\<close> is kept in parsed form: \<open>IsoDate d\<close> is the ten characters
  \<^verbatim>\<open>YYYY-MM-DD\<close> of the date with ordinal \<open>d\<close>, \<open>IsoDateTime dt\<close> a text that goes on with a
  time of day. \<^verbatim>\<open>datetime.fromisoformat\<close> reads a date alone as midnight.
\<close>

datatype isotext = IsoDate int | IsoDateTime datetime

fun fromisoformat :: "isotext \<Rightarrow> datetime" where
  "fromisoformat (IsoDate d) =
     \<lparr>ordinal = d, hour = 0, minute = 0, second = 0, microsecond = 0\<rparr>"
| "fromisoformat (IsoDateTime dt) = dt"

text \<open>
  The order of the texts as strings: by date, a date alone before the same date followed
  by a time, then by time of day.
\<close>

fun iso_key :: "isotext \<Rightarrow> int \<times> int" where
  "iso_key (IsoDate d) = (d, 0)"
| "iso_key (IsoDateTime dt) = (ordinal dt, 1 + to_microseconds (dt\<lparr>ordinal := 0\<rparr>))"

text \<open>The calendar date of an ordinal, after \<^verbatim>\<open>_ord2ymd\<close> of the standard library.\<close>

definition days_before_month :: "nat \<Rightarrow> nat" where
  "days_before_month m = [0, 0, 31, 59, 90, 120, 151, 181, 212, 243, 273, 304, 334] ! m"

definition days_in_month :: "nat \<Rightarrow> nat" where
  "days_in_month m = [0, 31, 28, 31, 30, 31, 30, 31, 31, 30, 31, 30, 31] ! m"

definition ord2ymd :: "int \<Rightarrow> nat \<times> nat \<times> nat" where
  "ord2ymd ord =
     (let n0 = ord - 1;
          n400 = n0 div 146097; n1 = n0 mod 146097;
          n100 = n1 div 36524; n2 = n1 mod 36524;
          n4 = n2 div 1461; n3 = n2 mod 1461;
          ny = n3 div 365; n = nat (n3 mod 365);
          year = nat (n400 * 400 + 1 + n100 * 100 + n4 * 4 + ny)
      in if ny = 4 \<or> n100 = 4 then (year - 1, 12, 31)
         else
           let leap = (ny = 3 \<and> (n4 \<noteq> 24 \<or> n100 = 3));
               month = (n + 50) div 32;
               preceding = days_before_month month + (if 2 < month \<and> leap then 1 else 0)
           in if n < preceding
              then
                let month' = month - 1;
                    preceding' = preceding
                      - (days_in_month month' + (if month' = 2 \<and> leap then 1 else 0))
                in (year, month', n - preceding' + 1)
              else (year, month, n - preceding + 1))"

definition day_abbr :: "int \<Rightarrow> string" where
  "day_abbr w = [''Mon'', ''Tue'', ''Wed'', ''Thu'', ''Fri'', ''Sat'', ''Sun''] ! nat w"

definition month_abbr :: "nat \<Rightarrow> string" where
  "month_abbr m =
     ['''', ''Jan'', ''Feb'', ''Mar'', ''Apr'', ''May'', ''Jun'',
      ''Jul'', ''Aug'', ''Sep'', ''Oct'', ''Nov'', ''Dec''] ! m"

definition pad4 :: "nat \<Rightarrow> string" where
  "pad4 n = replicate (4 - length (show_nat n)) CHR ''0'' @ show_nat n"

text \<open>The directives of \<^verbatim>\<open>strftime\<close> that the bot uses; any other is kept as written.\<close>

definition directive :: "char \<Rightarrow> datetime \<Rightarrow> string" where
  "directive c dt =
     (let (y, m, d) = ord2ymd (ordinal dt)
      in if c = CHR ''a'' then day_abbr (weekday dt)
         else if c = CHR ''b'' then month_abbr m
         else if c = CHR ''d'' then pad2 d
         else if c = CHR ''m'' then pad2 m
         else if c = CHR ''Y'' then pad4 y
         else if c = CHR ''H'' then pad2 (hour dt)
         else if c = CHR ''I'' then pad2 (if hour dt mod 12 = 0 then 12 else hour dt mod 12)
         else if c = CHR ''M'' then pad2 (minute dt)
         else if c = CHR ''p'' then (if hour dt < 12 then ''AM'' else ''PM'')
         else [CHR ''%'', c])"

fun strftime :: "string \<Rightarrow> datetime \<Rightarrow> string" where
  "strftime [] dt = []"
| "strftime [c] dt = [c]"
| "strftime (c # c' # cs) dt =
     (if c = CHR ''%'' then directive c' dt @ strftime cs dt else c # strftime (c' # cs) dt)"

section \<open>The indicator catalog and the data gateway\<close>

text \<open>\<^verbatim>\<open>ECONOMIC_INDICATORS\<close>: a dict keeps the order in which its keys were written.\<close>

definition ECONOMIC_INDICATORS :: "(string \<times> string) list" where
  "ECONOMIC_INDICATORS =
     [(''CPIAUCSL'', ''Consumer Price Index (CPI)''),
      (''CPILFESL'', ''Core CPI (excluding Food & Energy)''),
      (''PAYEMS'', ''Nonfarm Payroll''),
      (''UNRATE'', ''Unemployment Rate''),
      (''GDP'', ''Gross Domestic Product''),
      (''FEDFUNDS'', ''Federal Funds Rate''),
      (''INDPRO'', ''Industrial Production Index''),
      (''RSXFS'', ''Retail Sales''),
      (''RRSFS'', ''Real Retail Sales''),
      (''VIXCLS'', ''VIX Volatility Index''),
      (''DTWEXB'', ''US Dollar Index''),
      (''DCOILWTICO'', ''Crude Oil WTI''),
      (''DGS2'', ''2-Year Treasury Rate''),
      (''DGS10'', ''10-Year Treasury Rate''),
      (''T10Y2Y'', ''10Y-2Y Treasury Spread''),
      (''WALCL'', ''Fed Balance Sheet Total Assets''),
      (''M2V'', ''Velocity of M2 Money Stock''),
      (''BOGMBASE'', ''Monetary Base''),
      (''ICSA'', ''Initial Jobless Claims''),
      (''PCE'', ''Personal Consumption Expenditures''),
      (''HOUST'', ''Housing Starts'')]"

text \<open>
  The provider, as the bot sees it. A series is the list of its observations, each the
  ordinal of its date and its value, in the order the provider returns them.
  \<^verbatim>\<open>get_series_info\<close> gives the attributes of a series by name; \<^verbatim>\<open>get_series\<close> takes
  the key and the optional \<^verbatim>\<open>observation_start\<close>, \<^verbatim>\<open>observation_end\<close> (dates) and
  \<^verbatim>\<open>limit\<close>. Either call may raise.
\<close>

type_synonym series = "(int \<times> pyfloat) list"

record fred =
  get_series_info :: "string \<Rightarrow> exn + (string \<rightharpoonup> string)"
  get_series :: "string \<Rightarrow> int option \<Rightarrow> int option \<Rightarrow> nat option \<Rightarrow> exn + series"

section \<open>The event cache and its refresh\<close>

record event =
  time :: isotext
  title :: string
  series_id :: string
  impact :: string
  previous :: string

record embed =
  embed_title :: string
  description :: string
  color :: nat
  embed_fields :: "(string \<times> string \<times> bool) list"
  image :: "string option"

text \<open>
  The state the two periodic jobs share: the cache, the registered channel ids, the
  messages sent to channels so far and the lines printed to the console.
\<close>

record bot_state =
  daily_events :: "event list"
  ANNOUNCEMENT_CHANNELS :: "int fset"
  sent :: "(int \<times> embed) list"
  console :: "string list"

subsection \<open>\<^verbatim>\<open>fetch_economic_events\<close>\<close>

text \<open>Lines 86 to 98: the date that every event of the run carries.\<close>

definition next_day :: "datetime \<Rightarrow> datetime" where
  "next_day now = (if 16 \<le> hour now \<and> 30 \<le> minute now then add_days now 1 else now)"

function skip_weekend :: "datetime \<Rightarrow> datetime" where
  "skip_weekend d = (if 5 \<le> weekday d then skip_weekend (add_days d 1) else d)"
  by pat_completeness auto
termination
proof (relation "measure (\<lambda>d. nat (if 5 \<le> weekday d then 7 - weekday d else 0))")
  show "wf (measure (\<lambda>d. nat (if 5 \<le> weekday d then 7 - weekday d else 0)))"
    by simp
next
  fix d :: datetime
  assume sat: "5 \<le> weekday d"
  have lt: "weekday d < 7"
    by (simp add: weekday_def)
  have nxt: "weekday (add_days d 1) = (weekday d + 1) mod 7"
    by (simp add: weekday_def add_days_def mod_simps add.commute add.left_commute)
  from sat lt have "weekday d = 5 \<or> weekday d = 6"
    by arith
  then show "(add_days d 1, d)
      \<in> measure (\<lambda>d. nat (if 5 \<le> weekday d then 7 - weekday d else 0))"
    using nxt by auto
qed

declare skip_weekend.simps [simp del]

definition release_date :: "datetime \<Rightarrow> int" where
  "release_date now = ordinal (skip_weekend (next_day now))"

text \<open>Lines 119 to 124: the first value of the series that is not absent.\<close>

fun first_notna :: "pyfloat list \<Rightarrow> pyfloat option" where
  "first_notna [] = None"
| "first_notna (val # vals) = (if notna val then Some val else first_notna vals)"

text \<open>Lines 126 to 145: the display text of the value.\<close>

definition format_value :: "string \<Rightarrow> pyfloat option \<Rightarrow> string \<Rightarrow> string" where
  "format_value sid previous_value units =
     (case previous_value of
        Some (Num v) \<Rightarrow>
          if sid \<in> set [''UNRATE'', ''FEDFUNDS'', ''DGS2'', ''DGS10'', ''T10Y2Y'']
            then fmt_2f v @ ''%''
          else if sid = ''DCOILWTICO'' then ''$'' @ fmt_2f v @ ''/bbl''
          else if sid = ''GOLDPMGBD228NLBM'' then ''$'' @ fmt_2f v @ ''/oz''
          else if str_in ''Billions of Dollars'' units then ''$'' @ fmt_comma_2f v @ ''B''
          else if str_in ''Millions of Dollars'' units then ''$'' @ fmt_comma_2f v @ ''M''
          else if sid = ''ICSA'' then fmt_comma_0f v
          else if sid = ''VIXCLS'' then fmt_2f v
          else fmt_comma_2f v
      | _ \<Rightarrow> ''N/A'')"

text \<open>\<^verbatim>\<open>info.get(key, default)\<close>.\<close>

definition info_get :: "(string \<rightharpoonup> string) \<Rightarrow> string \<Rightarrow> string \<Rightarrow> string" where
  "info_get info k dflt = (case info k of None \<Rightarrow> dflt | Some v \<Rightarrow> v)"

text \<open>
  Lines 103 to 153, the body of the inner \<^verbatim>\<open>try\<close> for one catalog entry: the event, or
  the exception that a gateway call raised.
\<close>

definition indicator_event :: "fred \<Rightarrow> datetime \<Rightarrow> int \<Rightarrow> string \<Rightarrow> string \<Rightarrow> exn + event" where
  "indicator_event gw now rdate sid descr =
     (case get_series_info gw sid of
        Inl e \<Rightarrow> Inl e
      | Inr info \<Rightarrow>
          (case get_series gw sid (Some (ordinal now - 30)) (Some (ordinal now)) None of
             Inl e \<Rightarrow> Inl e
           | Inr recent \<Rightarrow>
               (case (if recent = [] then get_series gw sid None None (Some 1) else Inr recent) of
                  Inl e \<Rightarrow> Inl e
                | Inr ser \<Rightarrow>
                    Inr \<lparr>time = IsoDate rdate,
                         title = descr,
                         series_id = sid,
                         impact = (if sid \<in> set [''CPIAUCSL'', ''PAYEMS'', ''GDP'', ''FEDFUNDS'']
                                   then ''High'' else ''Medium''),
                         previous = format_value sid (first_notna (map snd ser))
                                      (info_get info ''units'' [])\<rparr>)))"

text \<open>
  Lines 101 to 156, the loop over the catalog: an entry whose body raised is printed and
  left out, and the loop goes on. The result is the body of the outer \<^verbatim>\<open>try\<close>, with the
  lines printed.
\<close>

fun indicator_loop ::
  "fred \<Rightarrow> datetime \<Rightarrow> int \<Rightarrow> (string \<times> string) list \<Rightarrow> event list \<times> string list
     \<Rightarrow> exn + event list \<times> string list" where
  "indicator_loop gw now rdate [] (events, out) = Inr (events, out)"
| "indicator_loop gw now rdate ((sid, descr) # rest) (events, out) =
     (case indicator_event gw now rdate sid descr of
        Inl e \<Rightarrow>
          indicator_loop gw now rdate rest
            (events, out @ [''Error fetching '' @ sid @ '': '' @ str_exn e])
      | Inr ev \<Rightarrow> indicator_loop gw now rdate rest (events @ [ev], out))"

text \<open>
  The whole function: the sorted events and the lines printed. \<^verbatim>\<open>sorted\<close> is stable and
  compares the \<^verbatim>\<open>time\<close> texts. The outer handler returns the empty list.
\<close>

definition fetch_economic_events :: "fred \<Rightarrow> datetime \<Rightarrow> event list \<times> string list" where
  "fetch_economic_events gw now =
     (case indicator_loop gw now (release_date now) ECONOMIC_INDICATORS ([], []) of
        Inr (events, out) \<Rightarrow> (sort_key (\<lambda>x. iso_key (time x)) events, out)
      | Inl e \<Rightarrow> ([], [''Error fetching economic events: '' @ str_exn e]))"

subsection \<open>\<^verbatim>\<open>update_daily_events\<close>\<close>

definition update_daily_events :: "fred \<Rightarrow> datetime \<Rightarrow> bot_state \<Rightarrow> bot_state" where
  "update_daily_events gw now st =
     (let (events, out) = fetch_economic_events gw now
      in st\<lparr>daily_events := events, console := console st @ out\<rparr>)"

subsection \<open>\<^verbatim>\<open>check_events\<close>\<close>

text \<open>The notification of one event (lines 180 to 187).\<close>

definition upcoming_glyph :: string where
  "upcoming_glyph = map char_of [239, 163, 191, 195, 188, 195, 174, 195, 174 :: nat]"

definition notification :: "event \<Rightarrow> datetime \<Rightarrow> embed" where
  "notification ev event_time =
     \<lparr>embed_title = upcoming_glyph @ '' Upcoming Economic Release'',
      description = ''**'' @ title ev @ ''**'',
      color = 0x00ff00,
      embed_fields = [(''Time'', strftime ''%H:%M UTC'' event_time, True),
                (''Impact'', impact ev, True),
                (''Previous Value'', previous ev, True)],
      image = None\<rparr>"

text \<open>
  Lines 177 to 188: one message to every registered id for which \<^verbatim>\<open>bot.get_channel\<close>
  finds a channel. The ids of the set are visited in increasing order here.
\<close>

fun send_to_channels :: "(int \<Rightarrow> int option) \<Rightarrow> embed \<Rightarrow> int list \<Rightarrow> (int \<times> embed) list" where
  "send_to_channels get_channel em [] = []"
| "send_to_channels get_channel em (channel_id # ids) =
     (case get_channel channel_id of
        None \<Rightarrow> send_to_channels get_channel em ids
      | Some channel \<Rightarrow> (channel, em) # send_to_channels get_channel em ids)"

text \<open>Lines 169 to 188, the body of the loop for one event: the messages it sends.\<close>

definition check_event ::
  "(int \<Rightarrow> int option) \<Rightarrow> datetime \<Rightarrow> int fset \<Rightarrow> event \<Rightarrow> (int \<times> embed) list" where
  "check_event get_channel now channels ev =
     (let event_time = fromisoformat (time ev)
      in if hour event_time = 0 \<and> minute event_time = 0 then []
         else
           let time_until_event = to_microseconds event_time - to_microseconds now
           in if timedelta_minutes 14 \<le> time_until_event
                   \<and> time_until_event \<le> timedelta_minutes 15
              then send_to_channels get_channel (notification ev event_time)
                     (sorted_list_of_fset channels)
              else [])"

fun check_events_loop ::
  "(int \<Rightarrow> int option) \<Rightarrow> datetime \<Rightarrow> int fset \<Rightarrow> event list \<Rightarrow> (int \<times> embed) list" where
  "check_events_loop get_channel now channels [] = []"
| "check_events_loop get_channel now channels (ev # evs) =
     check_event get_channel now channels ev @ check_events_loop get_channel now channels evs"

definition check_events :: "(int \<Rightarrow> int option) \<Rightarrow> datetime \<Rightarrow> bot_state \<Rightarrow> bot_state" where
  "check_events get_channel now st =
     st\<lparr>sent := sent st
          @ check_events_loop get_channel now (ANNOUNCEMENT_CHANNELS st) (daily_events st)\<rparr>"

section \<open>Replies to commands\<close>







subsection \<open>\<^verbatim>\<open>send_chart\<close>\<close>









subsection \<open>\<^verbatim>\<open>list_events\<close>, the prefix command\<close>











subsection \<open>\<^verbatim>\<open>slash_list_events\<close>, the slash command\<close>





subsection \<open>\<^verbatim>\<open>get_current_data\<close> and \<^verbatim>\<open>slash_get_current_data\<close>\<close>

text \<open>
  \<^verbatim>\<open>dropna()\<close>, and the last observation of a series: \<^verbatim>\<open>iloc[-1]\<close> and \<^verbatim>\<open>index[-1]\<close>
  raise on an empty series. A float under \<^verbatim>\<open>,.2f\<close>.
\<close>

definition dropna :: "series \<Rightarrow> series" where
  "dropna ser = filter (\<lambda>ob. notna (snd ob)) ser"






section \<open>The notions of the specification\<close>

text \<open>
  The next applicable date as the specification words it: the date of the current time,
  the next day when the time is at or after 16:30, then on to the first weekday.
\<close>

definition at_or_after_cutoff :: "datetime \<Rightarrow> bool" where
  "at_or_after_cutoff t = (16 < hour t \<or> (hour t = 16 \<and> 30 \<le> minute t))"

definition spec_next_applicable_date :: "datetime \<Rightarrow> int" where
  "spec_next_applicable_date t =
     ordinal (skip_weekend (if at_or_after_cutoff t then add_days t 1 else t))"

text \<open>The most recent value of a series that is not absent: the one with the latest date.\<close>

definition most_recent_notna :: "series \<Rightarrow> pyfloat option" where
  "most_recent_notna ser =
     (case rev (sort_key fst (dropna ser)) of [] \<Rightarrow> None | ob # _ \<Rightarrow> Some (snd ob))"


text \<open>
  The fetch of a key fails in a run when one of the gateway calls made for it raises: the
  attributes, the window of thirty days, or the single observation asked for when the
  window is empty.
\<close>

definition fetch_fails :: "fred \<Rightarrow> datetime \<Rightarrow> string \<Rightarrow> bool" where
  "fetch_fails gw now sid =
     (isl (get_series_info gw sid)
      \<or> isl (get_series gw sid (Some (ordinal now - 30)) (Some (ordinal now)) None)
      \<or> (get_series gw sid (Some (ordinal now - 30)) (Some (ordinal now)) None = Inr []
          \<and> isl (get_series gw sid None None (Some 1))))"

definition failing_keys :: "fred \<Rightarrow> datetime \<Rightarrow> string list" where
  "failing_keys gw now = filter (fetch_fails gw now) (map fst ECONOMIC_INDICATORS)"

definition succeeding_keys :: "fred \<Rightarrow> datetime \<Rightarrow> string list" where
  "succeeding_keys gw now =
     filter (\<lambda>sid. \<not> fetch_fails gw now sid) (map fst ECONOMIC_INDICATORS)"





text \<open>The channels that \<^verbatim>\<open>bot.get_channel\<close> finds for the registered ids.\<close>

definition resolved_channels :: "(int \<Rightarrow> int option) \<Rightarrow> int fset \<Rightarrow> int list" where
  "resolved_channels get_channel channels =
     List.map_filter get_channel (sorted_list_of_fset channels)"





section \<open>Sample inputs\<close>

definition at_time :: "int \<Rightarrow> nat \<Rightarrow> nat \<Rightarrow> nat \<Rightarrow> datetime" where
  "at_time d h m s = \<lparr>ordinal = d, hour = h, minute = m, second = s, microsecond = 0\<rparr>"

text \<open>2024-01-03, a Wednesday, at 17:00; 2024-01-05, a Friday, at 16:45.\<close>

definition wednesday_1700 :: datetime where
  "wednesday_1700 = at_time 738888 17 0 0"

definition friday_1645 :: datetime where
  "friday_1645 = at_time 738890 16 45 0"


definition two_observations :: series where
  "two_observations = [(738860, Num 3), (738880, Num 4)]"

definition steady_fred :: fred where
  "steady_fred =
     \<lparr>get_series_info = (\<lambda>sid. Inr [''title'' \<mapsto> ''Unemployment Rate'', ''units'' \<mapsto> ''Percent'']),
      get_series = (\<lambda>sid start stop limit. Inr two_observations)\<rparr>"

text \<open>A provider that fails for one key only.\<close>

definition gdp_down_fred :: fred where
  "gdp_down_fred =
     steady_fred\<lparr>get_series_info :=
       (\<lambda>sid. if sid = ''GDP'' then Inl (Exception ''503'') else get_series_info steady_fred sid)\<rparr>"

definition sample_event :: "isotext \<Rightarrow> event" where
  "sample_event t =
     \<lparr>time = t, title = ''Nonfarm Payroll'', series_id = ''PAYEMS'', impact = ''High'',
      previous = ''157,000.00''\<rparr>"

definition old_state :: bot_state where
  "old_state =
     \<lparr>daily_events = [sample_event (IsoDate 738887)],
      ANNOUNCEMENT_CHANNELS = {|7|},
      sent = [],
      console = []\<rparr>"


definition no_channels :: "int \<Rightarrow> int option" where
  "no_channels channel_id = None"








text \<open>
  A provider whose window holds one observation, with an absent value, and whose single
  observation without bounds is 4.
\<close>

definition absent_window_fred :: fred where
  "absent_window_fred =
     steady_fred\<lparr>get_series :=
       (\<lambda>sid start stop limit.
          if limit = Some 1 then Inr [(738000, Num 4)] else Inr [(738880, NaN)])\<rparr>"

section \<open>Properties of the refresh job\<close>

subsection \<open>The release date\<close>



lemma weekday_add_days: "weekday (add_days d n) = (weekday d + n) mod 7"
  by (simp add: weekday_def add_days_def mod_simps add.assoc add.commute)

lemma skip_weekend_weekday: "weekday d < 5 \<Longrightarrow> skip_weekend d = d"
  by (subst skip_weekend.simps) simp

lemma skip_weekend_sunday: "weekday d = 6 \<Longrightarrow> skip_weekend d = add_days d 1"
  by (subst skip_weekend.simps) (simp add: weekday_add_days skip_weekend_weekday)

lemma add_days_add_days: "add_days (add_days d m) n = add_days d (m + n)"
  by (simp add: add_days_def)

lemma skip_weekend_saturday: "weekday d = 5 \<Longrightarrow> skip_weekend d = add_days d 2"
  by (subst skip_weekend.simps)
    (simp add: weekday_add_days skip_weekend_sunday add_days_add_days)

subsection \<open>The loop over the catalog\<close>

lemma indicator_event_fails:
  "isl (indicator_event gw now rdate sid descr) = fetch_fails gw now sid"
proof (cases "get_series_info gw sid")
  case (Inl e)
  then show ?thesis
    by (simp add: indicator_event_def fetch_fails_def)
next
  case info: (Inr info)
  show ?thesis
  proof (cases "get_series gw sid (Some (ordinal now - 30)) (Some (ordinal now)) None")
    case (Inl e)
    with info show ?thesis
      by (simp add: indicator_event_def fetch_fails_def)
  next
    case recent: (Inr recent)
    show ?thesis
    proof (cases "recent = []")
      case False
      with info recent show ?thesis
        by (simp add: indicator_event_def fetch_fails_def)
    next
      case True
      with info recent show ?thesis
        by (cases "get_series gw sid None None (Some 1)")
          (simp_all add: indicator_event_def fetch_fails_def)
    qed
  qed
qed

lemma indicator_event_fields:
  "indicator_event gw now rdate sid descr = Inr ev \<Longrightarrow> time ev = IsoDate rdate \<and> series_id ev = sid"
  by (auto simp: indicator_event_def split: sum.splits if_splits)

lemma indicator_loop_result:
  "\<exists>out'. indicator_loop gw now rdate items (events, out)
     = Inr (events @ List.map_filter
         (\<lambda>(sid, descr). (case indicator_event gw now rdate sid descr of
                             Inl e \<Rightarrow> None | Inr ev \<Rightarrow> Some ev)) items, out')"
proof (induction items arbitrary: events out)
  case Nil
  then show ?case by (simp add: map_filter_simps)
next
  case (Cons item items)
  obtain sid descr where item: "item = (sid, descr)" by (cases item)
  show ?case
  proof (cases "indicator_event gw now rdate sid descr")
    case (Inl e)
    with Cons.IH [of events "out @ [''Error fetching '' @ sid @ '': '' @ str_exn e]"] item
    show ?thesis by (simp add: map_filter_simps)
  next
    case (Inr ev)
    with Cons.IH [of "events @ [ev]" out] item
    show ?thesis by (simp add: map_filter_simps)
  qed
qed

lemma sort_same_key:
  assumes "map f xs = replicate (length xs) k"
  shows "sort_key f xs = xs"
proof -
  have all: "\<forall>x \<in> set xs. f x = k"
  proof
    fix x assume "x \<in> set xs"
    then have "f x \<in> set (map f xs)" by simp
    with assms show "f x = k" by (metis in_set_replicate)
  qed
  have "filter (\<lambda>y. f y = k) (sort_key f xs) = filter (\<lambda>y. f y = k) xs"
    by (rule sort_key_stable)
  moreover have "filter (\<lambda>y. f y = k) xs = xs"
    using all by simp
  moreover have "filter (\<lambda>y. f y = k) (sort_key f xs) = sort_key f xs"
    using all by simp
  ultimately show ?thesis by simp
qed

lemma collected_keys:
  "map series_id (List.map_filter
         (\<lambda>(sid, descr). (case indicator_event gw now rdate sid descr of
                             Inl e \<Rightarrow> None | Inr ev \<Rightarrow> Some ev)) items)
   = filter (\<lambda>sid. \<not> fetch_fails gw now sid) (map fst items)"
proof (induction items)
  case Nil
  then show ?case by (simp add: map_filter_simps)
next
  case (Cons item items)
  obtain sid descr where item: "item = (sid, descr)" by (cases item)
  show ?case
  proof (cases "indicator_event gw now rdate sid descr")
    case (Inl e)
    then have "fetch_fails gw now sid"
      using indicator_event_fails [of gw now rdate sid descr] by simp
    with Inl Cons.IH show ?thesis
      unfolding item by (simp add: map_filter_simps)
  next
    case (Inr ev)
    then have "\<not> fetch_fails gw now sid"
      using indicator_event_fails [of gw now rdate sid descr] by simp
    moreover have "series_id ev = sid"
      using indicator_event_fields [OF Inr] by simp
    ultimately show ?thesis
      using Inr Cons.IH unfolding item by (simp add: map_filter_simps)
  qed
qed

lemma collected_times:
  "map time (List.map_filter
         (\<lambda>(sid, descr). (case indicator_event gw now rdate sid descr of
                             Inl e \<Rightarrow> None | Inr ev \<Rightarrow> Some ev)) items)
   = replicate (length (List.map_filter
         (\<lambda>(sid, descr). (case indicator_event gw now rdate sid descr of
                             Inl e \<Rightarrow> None | Inr ev \<Rightarrow> Some ev)) items)) (IsoDate rdate)"
proof (induction items)
  case Nil
  then show ?case by (simp add: map_filter_simps)
next
  case (Cons item items)
  obtain sid descr where item: "item = (sid, descr)" by (cases item)
  show ?case
  proof (cases "indicator_event gw now rdate sid descr")
    case (Inl e)
    with Cons.IH show ?thesis
      unfolding item by (simp add: map_filter_simps)
  next
    case (Inr ev)
    moreover have "time ev = IsoDate rdate"
      using indicator_event_fields [OF Inr] by simp
    ultimately show ?thesis
      using Cons.IH unfolding item by (simp add: map_filter_simps)
  qed
qed

lemma fetch_economic_events_result:
  "\<exists>out. fetch_economic_events gw now =
     (List.map_filter
         (\<lambda>(sid, descr). (case indicator_event gw now (release_date now) sid descr of
                             Inl e \<Rightarrow> None | Inr ev \<Rightarrow> Some ev)) ECONOMIC_INDICATORS, out)"
proof -
  define evs where "evs = List.map_filter
         (\<lambda>(sid, descr). (case indicator_event gw now (release_date now) sid descr of
                             Inl e \<Rightarrow> None | Inr ev \<Rightarrow> Some ev)) ECONOMIC_INDICATORS"
  obtain out where loop: "indicator_loop gw now (release_date now) ECONOMIC_INDICATORS ([], [])
      = Inr (evs, out)"
    using indicator_loop_result [of gw now "release_date now" ECONOMIC_INDICATORS "[]" "[]"]
    unfolding evs_def by auto
  have "map time evs = replicate (length evs) (IsoDate (release_date now))"
    unfolding evs_def by (rule collected_times)
  then have "map iso_key (map time evs)
      = map iso_key (replicate (length evs) (IsoDate (release_date now)))"
    by (rule arg_cong)
  then have "map (\<lambda>x. iso_key (time x)) evs
      = replicate (length evs) (iso_key (IsoDate (release_date now)))"
    by (simp only: map_map comp_def map_replicate)
  then have "sort_key (\<lambda>x. iso_key (time x)) evs = evs"
    by (rule sort_same_key)
  with loop have "fetch_economic_events gw now = (evs, out)"
    by (simp add: fetch_economic_events_def)
  then show ?thesis
    unfolding evs_def by blast
qed

lemma fetch_economic_events_keys:
  "map series_id (fst (fetch_economic_events gw now)) = succeeding_keys gw now"
proof -
  obtain out where "fetch_economic_events gw now =
     (List.map_filter
         (\<lambda>(sid, descr). (case indicator_event gw now (release_date now) sid descr of
                             Inl e \<Rightarrow> None | Inr ev \<Rightarrow> Some ev)) ECONOMIC_INDICATORS, out)"
    using fetch_economic_events_result by blast
  then show ?thesis
    by (simp add: collected_keys succeeding_keys_def)
qed

lemma fetch_economic_events_times:
  "map time (fst (fetch_economic_events gw now))
     = replicate (length (fst (fetch_economic_events gw now))) (IsoDate (release_date now))"
proof -
  obtain out where "fetch_economic_events gw now =
     (List.map_filter
         (\<lambda>(sid, descr). (case indicator_event gw now (release_date now) sid descr of
                             Inl e \<Rightarrow> None | Inr ev \<Rightarrow> Some ev)) ECONOMIC_INDICATORS, out)"
    using fetch_economic_events_result by blast
  then show ?thesis
    using collected_times [of gw now "release_date now" ECONOMIC_INDICATORS] by simp
qed

lemma update_daily_events_cache:
  "daily_events (update_daily_events gw now st) = fst (fetch_economic_events gw now)"
  by (simp add: update_daily_events_def split: prod.splits)

lemma update_daily_events_others:
  "sent (update_daily_events gw now st) = sent st
   \<and> ANNOUNCEMENT_CHANNELS (update_daily_events gw now st) = ANNOUNCEMENT_CHANNELS st"
  by (simp add: update_daily_events_def split: prod.splits)

lemma catalog_keys_distinct: "distinct (map fst ECONOMIC_INDICATORS)"
  by (simp add: ECONOMIC_INDICATORS_def)

lemma catalog_size: "length ECONOMIC_INDICATORS = 21"
  by (simp add: ECONOMIC_INDICATORS_def)

lemma keys_partition:
  "length (succeeding_keys gw now) = length ECONOMIC_INDICATORS - length (failing_keys gw now)"
proof -
  have "length (failing_keys gw now) + length (succeeding_keys gw now)
      = length (map fst ECONOMIC_INDICATORS)"
    unfolding failing_keys_def succeeding_keys_def by (rule sum_length_filter_compl)
  then show ?thesis by simp
qed

lemma check_events_loop_dates:
  "map time evs = replicate (length evs) (IsoDate d)
     \<Longrightarrow> check_events_loop get_channel now channels evs = []"
proof (induction evs)
  case Nil
  then show ?case by simp
next
  case (Cons ev evs)
  then have "time ev = IsoDate d" and "map time evs = replicate (length evs) (IsoDate d)"
    by simp_all
  with Cons.IH show ?case
    by (simp add: check_event_def)
qed

lemma gdp_down_failing: "failing_keys gdp_down_fred friday_1645 = [''GDP'']"
  by (simp add: failing_keys_def fetch_fails_def gdp_down_fred_def steady_fred_def
      two_observations_def ECONOMIC_INDICATORS_def)

lemma gdp_down_succeeding: "''GDP'' \<notin> set (succeeding_keys gdp_down_fred friday_1645)"
  by (simp add: succeeding_keys_def fetch_fails_def gdp_down_fred_def)


lemma fmt_2f_3: "fmt_2f 3 = ''3.00''"
  by (simp add: fmt_2f_def round_half_even_def sign_text_def pad2_def digit_char_def show_nat.simps char_of_eq_iff)

lemma fmt_2f_4: "fmt_2f 4 = ''4.00''"
  by (simp add: fmt_2f_def round_half_even_def sign_text_def pad2_def digit_char_def show_nat.simps char_of_eq_iff)

lemma release_date_agrees:
  "30 \<le> minute now \<or> hour now < 16 \<Longrightarrow> release_date now = spec_next_applicable_date now"
  by (auto simp: release_date_def spec_next_applicable_date_def next_day_def at_or_after_cutoff_def)

lemma saturday_to_monday:
  "weekday (next_day now) = 5 \<Longrightarrow> release_date now = ordinal (next_day now) + 2"
  by (simp add: release_date_def skip_weekend_saturday add_days_def)

section \<open>The claims\<close>

subsection \<open>The refresh job\<close>




text \<open>
  Claim C2. On a Wednesday at 17:00, after the cutoff of 16:30, the code keeps the date of
  the day, where the next applicable date of the specification is the day after: the test
  of line 87 asks for a minute of at least 30 in whatever hour from 16 on.
\<close>

theorem cutoff_missed_after_five:
  "release_date wednesday_1700 = ordinal wednesday_1700
   \<and> spec_next_applicable_date wednesday_1700 = ordinal wednesday_1700 + 1"
  by (simp add: release_date_def spec_next_applicable_date_def wednesday_1700_def at_time_def
      next_day_def at_or_after_cutoff_def skip_weekend_weekday weekday_def add_days_def)

text \<open>
  Claim C3. For a window with two values, the older first as the provider returns them,
  the code selects the older one, 3, where the most recent one is 4; the event shows
  3.00% where the most recent value gives 4.00%. For a window that holds an absent value
  only, the code does not ask for the single latest observation and shows N/A.
\<close>

theorem oldest_value_selected:
  "first_notna (map snd two_observations) = Some (Num 3)
   \<and> most_recent_notna two_observations = Some (Num 4)
   \<and> map_sum id previous
        (indicator_event steady_fred friday_1645 (release_date friday_1645)
           ''UNRATE'' ''Unemployment Rate'') = Inr ''3.00%''
   \<and> format_value ''UNRATE'' (most_recent_notna two_observations) ''Percent'' = ''4.00%''
   \<and> map_sum id previous
        (indicator_event absent_window_fred friday_1645 (release_date friday_1645)
           ''UNRATE'' ''Unemployment Rate'') = Inr ''N/A''"
proof -
  have a: "first_notna (map snd two_observations) = Some (Num 3)"
    by (simp add: two_observations_def)
  have b: "most_recent_notna two_observations = Some (Num 4)"
    by (simp add: most_recent_notna_def two_observations_def dropna_def)
  have c: "format_value ''UNRATE'' (Some (Num 3)) ''Percent'' = ''3.00%''"
    by (simp add: format_value_def fmt_2f_3)
  have d: "format_value ''UNRATE'' (Some (Num 4)) ''Percent'' = ''4.00%''"
    by (simp add: format_value_def fmt_2f_4)
  have "indicator_event steady_fred friday_1645 (release_date friday_1645)
           ''UNRATE'' ''Unemployment Rate''
     = Inr \<lparr>time = IsoDate (release_date friday_1645), title = ''Unemployment Rate'',
            series_id = ''UNRATE'', impact = ''Medium'', previous = ''3.00%''\<rparr>"
    using a c by (simp add: indicator_event_def steady_fred_def info_get_def two_observations_def)
  moreover have "indicator_event absent_window_fred friday_1645 (release_date friday_1645)
           ''UNRATE'' ''Unemployment Rate''
     = Inr \<lparr>time = IsoDate (release_date friday_1645), title = ''Unemployment Rate'',
            series_id = ''UNRATE'', impact = ''Medium'', previous = ''N/A''\<rparr>"
    by (simp add: indicator_event_def absent_window_fred_def steady_fred_def info_get_def
        format_value_def)
  ultimately show ?thesis
    using a b d by simp
qed

text \<open>
  Claim C6. After a run, the keys of the cache are the catalog keys whose fetch did not
  fail, in catalog order and each once; the length of the cache is the size of the catalog
  less the number of failing keys. A failing key never stops the run: the statement holds
  for every provider.
\<close>

theorem refresh_publishes_succeeding_keys:
  "map series_id (daily_events (update_daily_events gw now st)) = succeeding_keys gw now
   \<and> distinct (map series_id (daily_events (update_daily_events gw now st)))
   \<and> length (daily_events (update_daily_events gw now st))
       = length ECONOMIC_INDICATORS - length (failing_keys gw now)"
proof -
  have keys: "map series_id (daily_events (update_daily_events gw now st)) = succeeding_keys gw now"
    by (simp only: update_daily_events_cache fetch_economic_events_keys)
  have "distinct (succeeding_keys gw now)"
    unfolding succeeding_keys_def using catalog_keys_distinct by (rule distinct_filter)
  moreover have "length (map series_id (daily_events (update_daily_events gw now st)))
      = length ECONOMIC_INDICATORS - length (failing_keys gw now)"
    by (simp only: keys keys_partition)
  then have "length (daily_events (update_daily_events gw now st))
      = length ECONOMIC_INDICATORS - length (failing_keys gw now)"
    by (simp only: length_map)
  ultimately show ?thesis
    using keys by simp
qed

theorem refresh_publishes_succeeding_keys_witness:
  "length (daily_events (update_daily_events gdp_down_fred friday_1645 old_state)) = 20
   \<and> ''GDP'' \<notin> set (map series_id
         (daily_events (update_daily_events gdp_down_fred friday_1645 old_state)))"
  using refresh_publishes_succeeding_keys [of gdp_down_fred friday_1645 old_state]
  by (simp only: gdp_down_failing catalog_size gdp_down_succeeding) simp

text \<open>
  Claim C10. Every event that a refresh puts in the cache carries the release date alone;
  the notifier sends nothing for an event whose time is a date alone; so a tick of the
  notifier on a cache that a refresh has produced sends no message, whatever the provider,
  the times, the registered channels and the state before.
\<close>

theorem refreshed_cache_never_notifies:
  "map time (daily_events (update_daily_events gw now st))
     = replicate (length (daily_events (update_daily_events gw now st))) (IsoDate (release_date now))
   \<and> check_event get_channel utc_now channels (ev\<lparr>time := IsoDate d\<rparr>) = []
   \<and> sent (check_events get_channel utc_now (update_daily_events gw now st)) = sent st"
proof -
  have times: "map time (daily_events (update_daily_events gw now st))
     = replicate (length (daily_events (update_daily_events gw now st))) (IsoDate (release_date now))"
    by (simp only: update_daily_events_cache fetch_economic_events_times)
  then have "check_events_loop get_channel utc_now
      (ANNOUNCEMENT_CHANNELS (update_daily_events gw now st))
      (daily_events (update_daily_events gw now st)) = []"
    by (rule check_events_loop_dates)
  then have "sent (check_events get_channel utc_now (update_daily_events gw now st)) = sent st"
    by (simp add: check_events_def update_daily_events_others)
  moreover have "check_event get_channel utc_now channels (ev\<lparr>time := IsoDate d\<rparr>) = []"
    by (simp add: check_event_def)
  ultimately show ?thesis
    using times by simp
qed

subsection \<open>The notifier\<close>







lemma resolved_none: "resolved_channels no_channels {|7|} = []"
  by (simp add: resolved_channels_def no_channels_def sorted_list_of_fset.rep_eq
      map_filter_simps)




subsection \<open>The Value Formatter\<close>


lemma catalog_key_not_gold:
  "sid \<in> set (map fst ECONOMIC_INDICATORS) \<Longrightarrow> sid \<noteq> ''GOLDPMGBD228NLBM''"
  by (auto simp: ECONOMIC_INDICATORS_def)




subsection \<open>The Chart Relay\<close>





subsection \<open>Prefix and slash commands\<close>








end
